theory Spec2Isabelle
  imports Main "HOL-Library.Multiset"
begin

section \<open>Data model (src/app.js, schemas and session fields)\<close>

text \<open>
  Mongo ObjectIds, session ids and payment references are strings. Prices and totals are
  JavaScript numbers; the catalog holds whole currency units, so they are integers here.
  The order schema has \<open>timestamps: true\<close>: mongoose sets \<open>createdAt\<close> and \<open>updatedAt\<close>
  when a new document is saved, and sets \<open>updatedAt\<close> again on every later write, by
  \<open>save\<close> of a modified document and by \<open>findOneAndUpdate\<close>. Times are milliseconds,
  natural numbers here.
\<close>

type_synonym object_id = string

record menu_item =
  m_id :: object_id
  m_name :: string
  m_price :: int
  m_description :: string

record order_item =
  menuItemId :: object_id
  i_name :: string
  i_price :: int
  quantity :: int

datatype order_status = Pending | Paid | Cancelled

record order =
  o_id :: object_id
  o_sessionId :: string
  o_items :: "order_item list"
  o_total :: int
  o_status :: order_status
  o_paymentReference :: "string option"
  o_createdAt :: nat
  o_updatedAt :: nat

text \<open>\<open>req.session\<close>: the fields the handlers read and write.\<close>

record session =
  sessionId :: string
  currentOrder :: "object_id list"
  awaitingItemSelection :: bool

text \<open>
  What a handler sends out. The texts of the bot messages are abstracted to one constructor
  per message of the source, carrying the data the text is built from.
\<close>

datatype bot_message =
    Options
  | InvalidInput
  | MenuListing "menu_item list"
  | ItemsUnavailable
  | NoOrderToPlace
  | MinimumAmount
  | PaymentUnavailable
  | PaymentError string
  | PaymentFailed
  | NoHistory
  | History "order list"
  | PendingOrderMsg order
  | NoCurrentOrder
  | CurrentOrderMsg "menu_item list" int
  | Cancelled_msg
  | Added nat int
  | InvalidSelection
  | GenericError

datatype effect =
    BotMessage bot_message
  | Redirect string
  | GatewayInitialize int string

text \<open>
  The exceptions of the checkout path. \<open>ReferenceError\<close> is the one JavaScript raises
  when an identifier is not in scope.
\<close>

datatype js_error =
    ValidationError
  | PersistenceError
  | GatewayError "string option"
  | InvalidPaystackResponse
  | ReferenceError

text \<open>
  The reply of the payment gateway to \<open>transaction/initialize\<close>: either the request
  throws (with the provider's message, when it sent one), or a response arrives that may
  carry an \<open>authorization_url\<close>.
\<close>

datatype gateway_reply = GwFailure "string option" | GwResponse "string option"

text \<open>
  What the environment decides during one user turn: the ObjectId that \<open>new Order\<close>
  generates, whether the store rejects the first save, whether the secret key is set, the
  gateway's reply, and the clock at the first save of an order (\<open>now\<close>) and at its save
  after the gateway has answered (\<open>later\<close>). Reads of the catalog and of the store, session
  saves and the second save of an order are taken to succeed.
\<close>

record env =
  newOrderId :: object_id
  saveFails :: bool
  keyPresent :: bool
  gateway :: gateway_reply
  now :: nat
  later :: nat

text \<open>The state one user turn works on: the session, the order collection, what was sent.\<close>

record ctx =
  session :: session
  orders :: "order list"
  out :: "effect list"

section \<open>Input validation: trim and the pattern\<close>

text \<open>
  Characters are code units below 256. \<open>String.prototype.trim\<close> removes white space and
  line terminators at both ends; in this range these are TAB, LF, VT, FF, CR, SP and NBSP.
\<close>

definition is_space :: "char \<Rightarrow> bool" where
  "is_space c = (c \<in> set [CHR 0x09, CHR 0x0A, CHR 0x0B, CHR 0x0C, CHR 0x0D, CHR 0x20, CHR 0xA0])"

definition trim :: "string \<Rightarrow> string" where
  "trim s = rev (dropWhile is_space (rev (dropWhile is_space s)))"

definition is_digit :: "char \<Rightarrow> bool" where
  "is_digit c = (c \<in> set ''0123456789'')"

text \<open>
  Regular expressions with the constructs the pattern uses, and matching of a whole string
  (the pattern is anchored at both ends) by derivatives.
\<close>

datatype rx =
    Never
  | Empty
  | Lit char
  | Digit
  | Alt rx rx
  | Seq rx rx
  | Star rx

definition Plus :: "rx \<Rightarrow> rx" where
  "Plus r = Seq r (Star r)"

fun lits :: "string \<Rightarrow> rx" where
  "lits [] = Empty"
| "lits (c # cs) = Seq (Lit c) (lits cs)"

fun nullable :: "rx \<Rightarrow> bool" where
  "nullable Never = False"
| "nullable Empty = True"
| "nullable (Lit c) = False"
| "nullable Digit = False"
| "nullable (Alt r s) = (nullable r \<or> nullable s)"
| "nullable (Seq r s) = (nullable r \<and> nullable s)"
| "nullable (Star r) = True"

fun deriv :: "char \<Rightarrow> rx \<Rightarrow> rx" where
  "deriv a Never = Never"
| "deriv a Empty = Never"
| "deriv a (Lit c) = (if a = c then Empty else Never)"
| "deriv a Digit = (if is_digit a then Empty else Never)"
| "deriv a (Alt r s) = Alt (deriv a r) (deriv a s)"
| "deriv a (Seq r s) =
     (if nullable r then Alt (Seq (deriv a r) s) (deriv a s) else Seq (deriv a r) s)"
| "deriv a (Star r) = Seq (deriv a r) (Star r)"

fun rx_match :: "rx \<Rightarrow> string \<Rightarrow> bool" where
  "rx_match r [] = nullable r"
| "rx_match r (a # as) = rx_match (deriv a r) as"

text \<open>\<^verbatim>\<open>/^(0|1|97|98|99|\d+(,\d+)*)$/\<close>\<close>

definition input_pattern :: rx where
  "input_pattern =
     Alt (lits ''0'') (Alt (lits ''1'') (Alt (lits ''97'') (Alt (lits ''98'') (Alt (lits ''99'')
       (Seq (Plus Digit) (Star (Seq (Lit CHR '','') (Plus Digit))))))))"

definition valid_input :: "string \<Rightarrow> bool" where
  "valid_input s = rx_match input_pattern s"

section \<open>Catalog and order collection queries\<close>

text \<open>\<open>MenuItem.find({ _id: { $in: ids } })\<close>: the catalog's documents whose id is listed.\<close>

definition find_in :: "menu_item list \<Rightarrow> object_id list \<Rightarrow> menu_item list" where
  "find_in menu ids = filter (\<lambda>m. m_id m \<in> set ids) menu"

text \<open>\<open>Order.findOne({ sessionId, status: "pending" })\<close>\<close>

definition findOne_pending :: "order list \<Rightarrow> string \<Rightarrow> order option" where
  "findOne_pending os sid = find (\<lambda>d. o_sessionId d = sid \<and> o_status d = Pending) os"

text \<open>\<open>Order.deleteMany({ sessionId, status: "pending" })\<close>\<close>

definition deleteMany_pending :: "order list \<Rightarrow> string \<Rightarrow> order list" where
  "deleteMany_pending os sid = filter (\<lambda>d. \<not> (o_sessionId d = sid \<and> o_status d = Pending)) os"

text \<open>An update of the first document that satisfies a filter; the others are untouched.\<close>

fun update_first :: "('a \<Rightarrow> bool) \<Rightarrow> ('a \<Rightarrow> 'a) \<Rightarrow> 'a list \<Rightarrow> 'a list" where
  "update_first P f [] = []"
| "update_first P f (x # xs) = (if P x then f x # xs else x # update_first P f xs)"

text \<open>
  The schema's validators, run by \<open>save\<close>: the session id has 36 characters, hexadecimal
  digits or hyphens, and the total is at least 100.
\<close>

definition is_hex_or_hyphen :: "char \<Rightarrow> bool" where
  "is_hex_or_hyphen c = (c \<in> set ''0123456789abcdefABCDEF-'')"

definition order_valid :: "order \<Rightarrow> bool" where
  "order_valid d = (length (o_sessionId d) = 36 \<and> list_all is_hex_or_hyphen (o_sessionId d)
                    \<and> 100 \<le> o_total d)"

section \<open>The user-message handler\<close>

definition emit :: "bot_message \<Rightarrow> ctx \<Rightarrow> ctx" where
  "emit m c = c\<lparr>out := out c @ [BotMessage m]\<rparr>"

definition sendOptions :: "ctx \<Rightarrow> ctx" where
  "sendOptions c = emit Options c"

definition set_cart :: "object_id list \<Rightarrow> ctx \<Rightarrow> ctx" where
  "set_cart ids c = c\<lparr>session := (session c)\<lparr>currentOrder := ids\<rparr>\<rparr>"

definition set_awaiting :: "bool \<Rightarrow> ctx \<Rightarrow> ctx" where
  "set_awaiting b c = c\<lparr>session := (session c)\<lparr>awaitingItemSelection := b\<rparr>\<rparr>"

text \<open>Case "1": empty the cart, send the menu, expect a selection next.\<close>

definition browse :: "menu_item list \<Rightarrow> ctx \<Rightarrow> ctx" where
  "browse menu c = set_awaiting True (emit (MenuListing menu) (set_cart [] c))"

text \<open>The snapshot of a catalog document inside an order.\<close>

definition snapshot :: "menu_item \<Rightarrow> order_item" where
  "snapshot m = \<lparr>menuItemId = m_id m, i_name = m_name m, i_price = m_price m, quantity = 1\<rparr>"

definition new_order :: "env \<Rightarrow> string \<Rightarrow> menu_item list \<Rightarrow> order" where
  "new_order e sid items =
     \<lparr>o_id = newOrderId e, o_sessionId = sid, o_items = map snapshot items,
      o_total = foldl (\<lambda>sum item. sum + m_price item) 0 items,
      o_status = Pending, o_paymentReference = None,
      o_createdAt = now e, o_updatedAt = now e\<rparr>"

definition payment_reference :: "order \<Rightarrow> string" where
  "payment_reference a = ''order_'' @ o_id a"

text \<open>
  \<open>activeOrder.paymentReference = reference; await activeOrder.save()\<close>. Assigning the
  value a path already has does not mark the document modified, and \<open>save\<close> of an
  unmodified document writes nothing; otherwise the stored document with the order's id
  gets the reference and a new \<open>updatedAt\<close>.
\<close>

definition save_reference :: "nat \<Rightarrow> order \<Rightarrow> order list \<Rightarrow> order list" where
  "save_reference t a os =
     (if o_paymentReference a = Some (payment_reference a) then os
      else update_first (\<lambda>d. o_id d = o_id a)
             (\<lambda>d. d\<lparr>o_paymentReference := Some (payment_reference a), o_updatedAt := t\<rparr>) os)"

text \<open>
  Case "99" from the total check on, for the active order \<open>a\<close>. A thrown exception is
  \<open>Inl\<close>, with the state at the throw; \<open>Inr\<close> is a normal end or an early return.
\<close>

definition checkout_pay :: "env \<Rightarrow> order \<Rightarrow> ctx \<Rightarrow> (js_error \<times> ctx) + ctx" where
  "checkout_pay e a c =
     (if o_total a < 100 then Inr (sendOptions (emit MinimumAmount c))
      else if \<not> keyPresent e then Inr (sendOptions (emit PaymentUnavailable c))
      else
        let c1 = c\<lparr>out := out c @ [GatewayInitialize (o_total a * 100) (payment_reference a)]\<rparr>
        in case gateway e of
             GwFailure msg \<Rightarrow> Inl (GatewayError msg, c1)
           | GwResponse None \<Rightarrow> Inl (InvalidPaystackResponse, c1)
           | GwResponse (Some url) \<Rightarrow>
               if url = [] then Inl (InvalidPaystackResponse, c1)
               else
                 let c2 = c1\<lparr>orders := save_reference (later e) a (orders c1)\<rparr>
                 in Inr (c2\<lparr>out := out c2 @ [Redirect url]\<rparr>))"

text \<open>The body of the \<open>try\<close> block of case "99".\<close>

definition checkout_try :: "env \<Rightarrow> menu_item list \<Rightarrow> ctx \<Rightarrow> (js_error \<times> ctx) + ctx" where
  "checkout_try e menu c =
     (if length (currentOrder (session c)) > 0 then
        let items = find_in menu (currentOrder (session c)) in
        if length items \<noteq> length (currentOrder (session c)) then
          Inr (sendOptions (set_cart [] (emit ItemsUnavailable c)))
        else
          let activeOrder = new_order e (sessionId (session c)) items in
          if \<not> order_valid activeOrder then Inl (ValidationError, c)
          else if saveFails e then Inl (PersistenceError, c)
          else checkout_pay e activeOrder (set_cart [] (c\<lparr>orders := orders c @ [activeOrder]\<rparr>))
      else
        case findOne_pending (orders c) (sessionId (session c)) of
          None \<Rightarrow> Inr (sendOptions (emit NoOrderToPlace c))
        | Some activeOrder \<Rightarrow> checkout_pay e activeOrder c)"

text \<open>The message the \<open>catch\<close> block of case "99" sends.\<close>

fun error_message :: "js_error \<Rightarrow> bot_message" where
  "error_message (GatewayError (Some msg)) = (if msg = [] then PaymentFailed else PaymentError msg)"
| "error_message _ = PaymentFailed"

text \<open>
  Case "99" with its \<open>catch\<close> block. The block sends the message and the options and then
  evaluates \<open>activeOrder?._id\<close> for the argument of \<open>Order.deleteOne\<close>. \<open>activeOrder\<close> is
  declared with \<open>let\<close> inside the \<open>try\<close> block, so it is not in scope in the \<open>catch\<close> block
  and no enclosing scope declares it: the evaluation raises a ReferenceError, and
  \<open>deleteOne\<close> is never called.
\<close>

definition checkout :: "env \<Rightarrow> menu_item list \<Rightarrow> ctx \<Rightarrow> (js_error \<times> ctx) + ctx" where
  "checkout e menu c =
     (case checkout_try e menu c of
        Inr c' \<Rightarrow> Inr c'
      | Inl (err, c') \<Rightarrow> Inl (ReferenceError, sendOptions (emit (error_message err) c')))"

text \<open>
  Case "98": the session's orders that are not pending, by \<open>createdAt\<close> descending (the
  order among equal times is not fixed by the database; here the later document first).
\<close>

definition history :: "ctx \<Rightarrow> ctx" where
  "history c =
     (let os = rev (sort_key o_createdAt
                      (filter (\<lambda>d. o_sessionId d = sessionId (session c) \<and> o_status d \<noteq> Pending)
                         (orders c)))
      in sendOptions (emit (if length os = 0 then NoHistory else History os) c))"

text \<open>Case "97": the cart, or else the session's pending order.\<close>

definition review :: "menu_item list \<Rightarrow> ctx \<Rightarrow> ctx" where
  "review menu c =
     (if length (currentOrder (session c)) = 0 then
        (case findOne_pending (orders c) (sessionId (session c)) of
           Some pendingOrder \<Rightarrow> sendOptions (emit (PendingOrderMsg pendingOrder) c)
         | None \<Rightarrow> sendOptions (emit NoCurrentOrder c))
      else
        let items = find_in menu (currentOrder (session c));
            total = foldl (\<lambda>sum item. sum + m_price item) 0 items
        in sendOptions (emit (CurrentOrderMsg items total) c))"

text \<open>Case "0": delete the session's pending orders and empty the cart.\<close>

definition cancel :: "ctx \<Rightarrow> ctx" where
  "cancel c =
     sendOptions (emit Cancelled_msg
       (set_cart [] (c\<lparr>orders := deleteMany_pending (orders c) (sessionId (session c))\<rparr>)))"

text \<open>\<open>split(",")\<close>\<close>

fun split_on :: "char \<Rightarrow> string \<Rightarrow> string list" where
  "split_on d [] = [[]]"
| "split_on d (x # xs) =
     (if x = d then [] # split_on d xs
      else case split_on d xs of [] \<Rightarrow> [[x]] | p # ps \<Rightarrow> (x # p) # ps)"

text \<open>
  \<open>parseInt\<close> on the strings that reach it: a validated input holds digits and commas
  only, so each part is a run of decimal digits. \<open>None\<close> is NaN. The value is exact here;
  JavaScript rounds above \<open>2^53\<close>, far beyond any catalog index.
\<close>

definition digit_value :: "char \<Rightarrow> int" where
  "digit_value c = of_char c - 48"

definition parseInt :: "string \<Rightarrow> int option" where
  "parseInt s =
     (let ds = takeWhile is_digit s
      in if ds = [] then None else Some (foldl (\<lambda>n c. 10 * n + digit_value c) 0 ds))"

text \<open>The price the selection message adds for an id: that of the first catalog item with it.\<close>

definition price_of :: "menu_item list \<Rightarrow> object_id \<Rightarrow> int" where
  "price_of menu i = (case find (\<lambda>m. m_id m = i) menu of Some item \<Rightarrow> m_price item | None \<Rightarrow> 0)"

text \<open>The default case: a selection, when one is awaited; otherwise nothing happens.\<close>

definition select_items :: "menu_item list \<Rightarrow> string \<Rightarrow> ctx \<Rightarrow> ctx" where
  "select_items menu cleanedInput c =
     (if awaitingItemSelection (session c) then
        let selectedItems = List.map_filter (\<lambda>num. parseInt (trim num)) (split_on CHR '','' cleanedInput);
            validItems = map (\<lambda>index. m_id (menu ! nat index))
                           (filter (\<lambda>index. index \<ge> 0 \<and> index < int (length menu))
                              (map (\<lambda>num. num - 1) selectedItems))
        in sendOptions
             (if length validItems > 0 then
                emit (Added (length validItems)
                        (foldl (\<lambda>sum i. sum + price_of menu i) 0 validItems))
                  (set_awaiting False (set_cart validItems c))
              else emit InvalidSelection c)
      else c)"

text \<open>
  The handler of \<open>user-message\<close>. An exception that leaves a case is caught by the outer
  \<open>catch\<close>, which sends the generic error and the options.
\<close>

definition user_message :: "env \<Rightarrow> menu_item list \<Rightarrow> string \<Rightarrow> ctx \<Rightarrow> ctx" where
  "user_message e menu input c =
     (let cleanedInput = trim input in
      if \<not> valid_input cleanedInput then sendOptions (emit InvalidInput c)
      else if cleanedInput = ''1'' then browse menu c
      else if cleanedInput = ''99'' then
        (case checkout e menu c of
           Inr c' \<Rightarrow> c'
         | Inl (err, c') \<Rightarrow> sendOptions (emit GenericError c'))
      else if cleanedInput = ''98'' then history c
      else if cleanedInput = ''97'' then review menu c
      else if cleanedInput = ''0'' then cancel c
      else select_items menu cleanedInput c)"

section \<open>The payment callback\<close>

text \<open>
  The gateway's answer to \<open>transaction/verify\<close>: the request throws, or the response lacks
  \<open>data.data\<close>, or it carries a status.
\<close>

datatype verify_reply = VerifyFailure | VerifyMalformed | VerifyStatus string

text \<open>
  The HTTP response and what else one callback does. \<open>response\<close> is the redirect the
  caller receives, if any. \<open>uncaught\<close> says that an exception left the handler.
\<close>

record callback_result =
  cb_orders :: "order list"
  response :: "string option"
  broadcasts :: "string list"
  uncaught :: bool

text \<open>
  \<open>res.redirect\<close>: the first call sends the response; a call after the response was sent
  throws (the headers cannot be set again).
\<close>

definition res_redirect :: "string \<Rightarrow> callback_result \<Rightarrow> callback_result option" where
  "res_redirect url r = (case response r of None \<Rightarrow> Some (r\<lparr>response := Some url\<rparr>) | Some _ \<Rightarrow> None)"

text \<open>
  \<open>Order.findOneAndUpdate({ paymentReference: reference }, { status: "paid" }, { new: true })\<close>
  at time \<open>t\<close>: the first document with the reference gets the status and, the schema
  having timestamps, a new \<open>updatedAt\<close>. The result is the collection after the update, and
  the updated document or null.
\<close>

definition mark_paid :: "nat \<Rightarrow> order \<Rightarrow> order" where
  "mark_paid t d = d\<lparr>o_status := Paid, o_updatedAt := t\<rparr>"

definition findOneAndUpdate_paid :: "nat \<Rightarrow> order list \<Rightarrow> string \<Rightarrow> order list \<times> order option" where
  "findOneAndUpdate_paid t os reference =
     (update_first (\<lambda>d. o_paymentReference d = Some reference) (mark_paid t) os,
      map_option (mark_paid t) (find (\<lambda>d. o_paymentReference d = Some reference) os))"

text \<open>The \<open>catch\<close> block of the callback: the error redirect, which throws when a response was sent.\<close>

definition callback_catch :: "callback_result \<Rightarrow> callback_result" where
  "callback_catch r =
     (case res_redirect ''/?payment=error'' r of Some r' \<Rightarrow> r' | None \<Rightarrow> r\<lparr>uncaught := True\<rparr>)"

text \<open>The handler of \<open>GET /payment/callback\<close>, run at time \<open>t\<close>.\<close>

definition payment_callback :: "nat \<Rightarrow> order list \<Rightarrow> string \<Rightarrow> verify_reply \<Rightarrow> callback_result" where
  "payment_callback t os reference v =
     (let r0 = \<lparr>cb_orders = os, response = None, broadcasts = [], uncaught = False\<rparr> in
      case v of
        VerifyFailure \<Rightarrow> callback_catch r0
      | VerifyMalformed \<Rightarrow> callback_catch r0
      | VerifyStatus status \<Rightarrow>
          if status = ''success'' then
            let (os', found) = findOneAndUpdate_paid t os reference;
                r1 = r0\<lparr>cb_orders := os'\<rparr>
            in case res_redirect (''/receipt?reference='' @ reference) r1 of
                 None \<Rightarrow> callback_catch r1
               | Some r2 \<Rightarrow>
                   (case found of
                      None \<Rightarrow> callback_catch r2
                    | Some ord \<Rightarrow> r2\<lparr>broadcasts := broadcasts r2 @ [o_sessionId ord]\<rparr>)
          else r0)"

section \<open>Interleavings\<close>

text \<open>
  The connections' sessions, the catalog and the order collection; an event is one user
  turn of one connection or one payment callback, each run to its end.
\<close>

record world =
  conns :: "nat \<Rightarrow> session"
  catalog :: "menu_item list"
  store :: "order list"

datatype event = UserMessage nat env string | PaymentCallback nat string verify_reply

fun step :: "world \<Rightarrow> event \<Rightarrow> world" where
  "step w (UserMessage k e input) =
     (let c = user_message e (catalog w) input \<lparr>session = conns w k, orders = store w, out = []\<rparr>
      in w\<lparr>conns := (conns w)(k := session c), store := orders c\<rparr>)"
| "step w (PaymentCallback t reference v) =
     w\<lparr>store := cb_orders (payment_callback t (store w) reference v)\<rparr>"

definition run :: "world \<Rightarrow> event list \<Rightarrow> world" where
  "run w es = foldl step w es"

definition pending_of :: "order list \<Rightarrow> string \<Rightarrow> order list" where
  "pending_of os sid = filter (\<lambda>d. o_sessionId d = sid \<and> o_status d = Pending) os"

section \<open>Sample data\<close>

text \<open>The catalog that \<open>initializeMenu\<close> seeds, with ids of our choosing.\<close>

definition seed_menu :: "menu_item list" where
  "seed_menu =
     [\<lparr>m_id = ''m1'', m_name = ''Jollof Rice'', m_price = 1500, m_description = ''Classic Nigerian Jollof''\<rparr>,
      \<lparr>m_id = ''m2'', m_name = ''Pounded Yam'', m_price = 2000, m_description = ''With Egusi Soup''\<rparr>,
      \<lparr>m_id = ''m3'', m_name = ''Chicken Suya'', m_price = 1200, m_description = ''Spicy grilled chicken''\<rparr>,
      \<lparr>m_id = ''m4'', m_name = ''Chapman Cocktail'', m_price = 800, m_description = ''Signature drink''\<rparr>]"

definition demo_sid :: string where
  "demo_sid = ''123e4567-e89b-42d3-a456-426614174000''"

definition demo_session :: session where
  "demo_session = \<lparr>sessionId = demo_sid, currentOrder = [], awaitingItemSelection = False\<rparr>"

definition env_ok :: "object_id \<Rightarrow> env" where
  "env_ok i = \<lparr>newOrderId = i, saveFails = False, keyPresent = True,
               gateway = GwResponse (Some ''https://checkout.paystack.com/x''),
               now = 1000, later = 2000\<rparr>"

definition demo_order :: "order_status \<Rightarrow> order" where
  "demo_order st =
     \<lparr>o_id = ''a1'', o_sessionId = demo_sid,
      o_items = [\<lparr>menuItemId = ''m2'', i_name = ''Pounded Yam'', i_price = 2000, quantity = 1\<rparr>],
      o_total = 2000, o_status = st, o_paymentReference = Some ''order_a1'',
      o_createdAt = 1000, o_updatedAt = 2000\<rparr>"

section \<open>Notions used in the statements\<close>



text \<open>A turn's state for the sample session, with a given cart and order collection.\<close>

definition demo_ctx :: "object_id list \<Rightarrow> order list \<Rightarrow> ctx" where
  "demo_ctx cart os = \<lparr>session = demo_session\<lparr>currentOrder := cart\<rparr>, orders = os, out = []\<rparr>"


text \<open>A world whose connections all start with the sample session.\<close>

definition demo_world :: "order list \<Rightarrow> world" where
  "demo_world os = \<lparr>conns = (\<lambda>k. demo_session), catalog = seed_menu, store = os\<rparr>"


text \<open>
  The language of a regular expression, to say what the matcher decides; \<open>kleene A\<close> is
  the set of concatenations of words of \<open>A\<close>.
\<close>

inductive_set kleene :: "string set \<Rightarrow> string set" for A :: "string set" where
  kleene_nil: "[] \<in> kleene A"
| kleene_app: "u \<in> A \<Longrightarrow> v \<in> kleene A \<Longrightarrow> u @ v \<in> kleene A"

fun lang :: "rx \<Rightarrow> string set" where
  "lang Never = {}"
| "lang Empty = {[]}"
| "lang (Lit c) = {[c]}"
| "lang Digit = {[c] | c. is_digit c}"
| "lang (Alt r s) = lang r \<union> lang s"
| "lang (Seq r s) = {u @ v | u v. u \<in> lang r \<and> v \<in> lang s}"
| "lang (Star r) = kleene (lang r)"

text \<open>A non-empty run of decimal digits.\<close>

definition is_number :: "string \<Rightarrow> bool" where
  "is_number s = (s \<noteq> [] \<and> list_all is_digit s)"

section \<open>The pattern\<close>

text \<open>
  Matching by derivatives decides membership in the language of the expression, and the
  inputs the pattern accepts are the comma-separated lists of non-empty digit runs (the five
  reserved commands among them).
\<close>

lemma nullable_lang: "nullable r \<longleftrightarrow> [] \<in> lang r"
  by (induction r) (auto intro: kleene_nil)

lemma kleene_Cons_split:
  assumes "x \<in> kleene A" and "x = a # w"
  shows "\<exists>u v. w = u @ v \<and> a # u \<in> A \<and> v \<in> kleene A"
  using assms
proof (induction arbitrary: w rule: kleene.induct)
  case kleene_nil
  then show ?case by simp
next
  case (kleene_app u v)
  show ?case
  proof (cases u)
    case Nil
    with kleene_app show ?thesis by simp
  next
    case (Cons b u')
    with kleene_app.prems have "b = a" and "w = u' @ v" by simp_all
    with Cons kleene_app.hyps show ?thesis by blast
  qed
qed

lemma kleene_Cons:
  "a # w \<in> kleene A \<longleftrightarrow> (\<exists>u v. w = u @ v \<and> a # u \<in> A \<and> v \<in> kleene A)"
proof
  assume "a # w \<in> kleene A"
  then show "\<exists>u v. w = u @ v \<and> a # u \<in> A \<and> v \<in> kleene A"
    by (rule kleene_Cons_split) simp
next
  assume "\<exists>u v. w = u @ v \<and> a # u \<in> A \<and> v \<in> kleene A"
  then obtain u v where "w = u @ v" "a # u \<in> A" "v \<in> kleene A" by blast
  then show "a # w \<in> kleene A"
    using kleene_app [of "a # u" A v] by simp
qed

lemma deriv_lang: "w \<in> lang (deriv a r) \<longleftrightarrow> a # w \<in> lang r"
proof (induction r arbitrary: w)
  case (Seq r s)
  show ?case
  proof (cases "nullable r")
    case True
    then have "[] \<in> lang r" by (simp add: nullable_lang)
    with True Seq show ?thesis
      by (auto simp: Cons_eq_append_conv)
  next
    case False
    then have "[] \<notin> lang r" by (simp add: nullable_lang)
    with False Seq show ?thesis
      by (auto simp: Cons_eq_append_conv)
  qed
next
  case (Star r)
  then show ?case
    by (auto simp: kleene_Cons)
qed auto

lemma rx_match_lang: "rx_match r w \<longleftrightarrow> w \<in> lang r"
  by (induction w arbitrary: r) (simp_all add: nullable_lang deriv_lang)

lemma lang_Plus_Digit: "lang (Plus Digit) = {s. is_number s}"
proof -
  have star: "v \<in> kleene {[c] | c. is_digit c} \<Longrightarrow> list_all is_digit v" for v
    by (induction rule: kleene.induct) auto
  have run_in: "list_all is_digit v \<Longrightarrow> v \<in> kleene {[c] | c. is_digit c}" for v
  proof (induction v)
    case Nil
    show ?case by (rule kleene_nil)
  next
    case (Cons c v)
    then have "[c] \<in> {[c] | c. is_digit c}" and "v \<in> kleene {[c] | c. is_digit c}"
      by simp_all
    then have "[c] @ v \<in> kleene {[c] | c. is_digit c}"
      by (rule kleene_app)
    then show ?case by simp
  qed
  show ?thesis
  proof (intro set_eqI iffI)
    fix s
    assume "s \<in> lang (Plus Digit)"
    then show "s \<in> {s. is_number s}"
      by (auto simp: Plus_def is_number_def dest: star)
  next
    fix s
    assume "s \<in> {s. is_number s}"
    then obtain c v where "s = c # v" "is_digit c" "list_all is_digit v"
      by (cases s) (auto simp: is_number_def)
    then have "s = [c] @ v" "[c] \<in> lang Digit" "v \<in> lang (Star Digit)"
      using run_in [of v] by auto
    then show "s \<in> lang (Plus Digit)"
      unfolding Plus_def lang.simps(6) by blast
  qed
qed

lemma lits_lang: "lang (lits s) = {s}"
  by (induction s) auto

lemma split_on_number: "list_all is_digit s \<Longrightarrow> split_on CHR '','' s = [s]"
  by (induction s) (auto simp: is_digit_def)

lemma split_on_append_comma:
  "list_all is_digit n \<Longrightarrow>
   split_on CHR '','' (n @ CHR '','' # rest) = n # split_on CHR '','' rest"
  by (induction n) (auto simp: is_digit_def)

lemma tail_parts:
  assumes "rest \<in> kleene {u @ v | u v. u \<in> {[CHR '','']} \<and> v \<in> {s. is_number s}}"
    and "list_all is_digit n"
  shows "\<exists>ps. split_on CHR '','' (n @ rest) = n # ps \<and> list_all is_number ps"
  using assms
proof (induction arbitrary: n rule: kleene.induct)
  case kleene_nil
  then show ?case by (simp add: split_on_number)
next
  case (kleene_app u v)
  then obtain m where u: "u = CHR '','' # m" and m: "is_number m"
    by auto
  from m have md: "list_all is_digit m" by (simp add: is_number_def)
  from kleene_app.IH [OF md] obtain ps
    where ps: "split_on CHR '','' (m @ v) = m # ps" "list_all is_number ps"
    by blast
  have "split_on CHR '','' (n @ u @ v) = n # m # ps"
    using kleene_app.prems ps(1) by (simp add: u split_on_append_comma)
  with m ps(2) show ?case by simp
qed

lemma valid_input_parts:
  assumes "valid_input s"
  shows "list_all is_number (split_on CHR '','' s)"
proof -
  let ?num = "{s. is_number s}"
  let ?tail = "kleene {u @ v | u v. u \<in> {[CHR '','']} \<and> v \<in> ?num}"
  have reserved: "is_number ''0''" "is_number ''1''" "is_number ''97''" "is_number ''98''"
    "is_number ''99''"
    by (simp_all add: is_number_def is_digit_def)
  from assms have "s \<in> lang input_pattern"
    by (simp add: valid_input_def rx_match_lang)
  then consider "s \<in> {''0'', ''1'', ''97'', ''98'', ''99''}"
    | n rest where "s = n @ rest" "is_number n" "rest \<in> ?tail"
    unfolding input_pattern_def lang.simps lits_lang lang_Plus_Digit by blast
  then show ?thesis
  proof cases
    case 1
    then show ?thesis
      using reserved by (auto simp: split_on_number is_number_def)
  next
    case 2
    from 2(2) have "list_all is_digit n" by (simp add: is_number_def)
    from tail_parts [OF 2(3) this] 2(1,2) show ?thesis by auto
  qed
qed

lemma split_on_nonempty: "split_on d s \<noteq> []"
  by (induction s) (auto split: list.splits)

lemma parts_tail:
  assumes "split_on CHR '','' s = p # ps" and "list_all is_digit p" and "list_all is_number ps"
  shows "\<exists>rest. s = p @ rest
           \<and> rest \<in> kleene {u @ v | u v. u \<in> {[CHR '','']} \<and> v \<in> {s. is_number s}}"
  using assms
proof (induction s arbitrary: p ps)
  case Nil
  then show ?case by (auto intro: kleene_nil)
next
  case (Cons x xs)
  let ?C = "{u @ v | u v. u \<in> {[CHR '','']} \<and> v \<in> {s. is_number s}}"
  obtain q qs where split: "split_on CHR '','' xs = q # qs"
    using split_on_nonempty [of "CHR '',''" xs] by (cases "split_on CHR '','' xs") auto
  show ?case
  proof (cases "x = CHR '',''")
    case True
    with Cons.prems split have p: "p = []" and ps: "ps = q # qs"
      by simp_all
    from ps Cons.prems(3) have q: "is_number q" and qs: "list_all is_number qs"
      by simp_all
    from q have "list_all is_digit q" by (simp add: is_number_def)
    from Cons.IH [OF split this qs] obtain rest where rest: "xs = q @ rest" "rest \<in> kleene ?C"
      by blast
    have "[CHR '',''] @ q \<in> ?C"
      using q by blast
    then have "([CHR '',''] @ q) @ rest \<in> kleene ?C"
      using rest(2) by (rule kleene_app)
    then show ?thesis
      using True p rest(1) by auto
  next
    case False
    with Cons.prems split have p: "p = x # q" and ps: "ps = qs"
      by simp_all
    from p Cons.prems(2) have "list_all is_digit q" by simp
    from Cons.IH [OF split this] ps Cons.prems(3)
    obtain rest where "xs = q @ rest" "rest \<in> kleene ?C"
      by blast
    then show ?thesis
      using p by auto
  qed
qed

lemma parts_valid_input:
  assumes "list_all is_number (split_on CHR '','' s)"
  shows "valid_input s"
proof -
  obtain p ps where split: "split_on CHR '','' s = p # ps"
    using split_on_nonempty [of "CHR '',''" s] by (cases "split_on CHR '','' s") auto
  with assms have p: "is_number p" and ps: "list_all is_number ps"
    by simp_all
  from p have "list_all is_digit p" by (simp add: is_number_def)
  from parts_tail [OF split this ps] obtain rest
    where "s = p @ rest"
      "rest \<in> kleene {u @ v | u v. u \<in> {[CHR '','']} \<and> v \<in> {s. is_number s}}"
    by blast
  with p have "s \<in> lang (Seq (Plus Digit) (Star (Seq (Lit CHR '','') (Plus Digit))))"
    unfolding lang.simps lang_Plus_Digit by blast
  then show ?thesis
    by (simp add: valid_input_def rx_match_lang input_pattern_def)
qed

lemma valid_input_iff: "valid_input s \<longleftrightarrow> list_all is_number (split_on CHR '','' s)"
  using valid_input_parts parts_valid_input by blast

section \<open>Facts about the queries\<close>

lemma foldl_price_acc:
  "foldl (\<lambda>sum item. sum + m_price item) acc items = acc + sum_list (map m_price items)"
  by (induction items arbitrary: acc) simp_all

lemma foldl_price: "foldl (\<lambda>sum item. sum + m_price item) 0 items = sum_list (map m_price items)"
  by (simp add: foldl_price_acc)

lemma length_find_in:
  assumes "distinct (map m_id menu)"
  shows "length (find_in menu ids) = card (set ids \<inter> set (map m_id menu))"
proof -
  have "length (find_in menu ids) = length (filter (\<lambda>i. i \<in> set ids) (map m_id menu))"
    by (simp add: find_in_def filter_map o_def)
  also have "\<dots> = card (set (filter (\<lambda>i. i \<in> set ids) (map m_id menu)))"
    by (rule distinct_card [symmetric]) (rule distinct_filter [OF assms])
  also have "set (filter (\<lambda>i. i \<in> set ids) (map m_id menu)) = set ids \<inter> set (map m_id menu)"
    by auto
  finally show ?thesis .
qed

lemma find_in_short_missing:
  assumes "distinct (map m_id menu)" and "i \<in> set ids" and "i \<notin> set (map m_id menu)"
  shows "length (find_in menu ids) < length ids"
proof -
  have "set ids \<inter> set (map m_id menu) \<subset> set ids"
    using assms(2,3) by blast
  then have "card (set ids \<inter> set (map m_id menu)) < card (set ids)"
    by (simp add: psubset_card_mono)
  also have "\<dots> \<le> length ids"
    by (rule card_length)
  finally show ?thesis
    by (simp add: length_find_in [OF assms(1)])
qed

lemma find_in_short_duplicate:
  assumes "distinct (map m_id menu)" and "\<not> distinct ids"
  shows "length (find_in menu ids) < length ids"
proof -
  have "card (set ids \<inter> set (map m_id menu)) \<le> card (set ids)"
    by (simp add: card_mono)
  moreover have "card (set ids) < length ids"
    using assms(2) card_distinct [of ids] card_length [of ids] by fastforce
  ultimately show ?thesis
    by (simp add: length_find_in [OF assms(1)])
qed

lemma find_in_full:
  assumes "distinct (map m_id menu)" and "distinct ids" and "set ids \<subseteq> set (map m_id menu)"
  shows "length (find_in menu ids) = length ids"
proof -
  have "set ids \<inter> set (map m_id menu) = set ids"
    using assms(3) by blast
  then show ?thesis
    using assms(2) by (simp add: length_find_in [OF assms(1)] distinct_card)
qed

lemma mset_find_in:
  assumes "distinct (map m_id menu)" and "distinct ids" and "set ids \<subseteq> set (map m_id menu)"
  shows "mset (map m_id (find_in menu ids)) = mset ids"
proof -
  have d: "distinct (map m_id (find_in menu ids))"
    using assms(1) by (simp add: find_in_def distinct_map_filter)
  have "set (map m_id (find_in menu ids)) = set ids"
    using assms(3) by (auto simp: find_in_def)
  with d assms(2) show ?thesis
    by (simp only: set_eq_iff_mset_eq_distinct)
qed

lemma price_of_member:
  assumes "distinct (map m_id menu)" and "m \<in> set menu"
  shows "price_of menu (m_id m) = m_price m"
  using assms
proof (induction menu)
  case Nil
  then show ?case by simp
next
  case (Cons x xs)
  then show ?case by (auto simp: price_of_def)
qed

lemma sum_prices_find_in:
  assumes "distinct (map m_id menu)" and "distinct ids" and "set ids \<subseteq> set (map m_id menu)"
  shows "sum_list (map m_price (find_in menu ids)) = sum_list (map (price_of menu) ids)"
proof -
  have "map m_price (find_in menu ids) = map (price_of menu) (map m_id (find_in menu ids))"
    using assms(1) by (simp add: find_in_def price_of_member)
  then have "sum_list (map m_price (find_in menu ids))
             = sum_mset (image_mset (price_of menu) (mset (map m_id (find_in menu ids))))"
    by (metis mset_map sum_mset_sum_list)
  also have "\<dots> = sum_mset (image_mset (price_of menu) (mset ids))"
    by (simp only: mset_find_in [OF assms])
  also have "\<dots> = sum_list (map (price_of menu) ids)"
    by (metis mset_map sum_mset_sum_list)
  finally show ?thesis .
qed

lemma trim_99: "trim ''99'' = ''99''"
  by (simp add: trim_def is_space_def)

lemma valid_99: "valid_input ''99''"
  by (simp add: valid_input_def input_pattern_def Plus_def is_digit_def)

lemma user_message_99:
  "user_message e menu ''99'' c =
     (case checkout e menu c of Inr c' \<Rightarrow> c' | Inl (err, c') \<Rightarrow> sendOptions (emit GenericError c'))"
  by (simp add: user_message_def trim_99 valid_99)

lemma update_first_append_fresh:
  "\<forall>x \<in> set xs. \<not> P x \<Longrightarrow> P a \<Longrightarrow> update_first P f (xs @ [a]) = xs @ [f a]"
  by (induction xs) simp_all








lemma checkout_try_creation_failed:
  "currentOrder (session c) \<noteq> [] \<Longrightarrow>
   saveFails e \<or> \<not> order_valid (new_order e (sessionId (session c))
                                  (find_in menu (currentOrder (session c)))) \<Longrightarrow>
   (\<exists>c'. checkout_try e menu c = Inr c' \<and> orders c' = orders c) \<or>
   (\<exists>err. checkout_try e menu c = Inl (err, c))"
  by (auto simp: checkout_try_def Let_def sendOptions_def emit_def set_cart_def)

section \<open>Checkout\<close>

lemma user_message_99_try:
  "user_message e menu ''99'' c =
     (case checkout_try e menu c of
        Inr c' \<Rightarrow> c'
      | Inl (err, c') \<Rightarrow>
          sendOptions (emit GenericError (sendOptions (emit (error_message err) c'))))"
  by (simp add: user_message_99 checkout_def split: sum.splits prod.splits)


lemma checkout_try_short:
  "length (find_in menu (currentOrder (session c))) < length (currentOrder (session c)) \<Longrightarrow>
   checkout_try e menu c = Inr (sendOptions (set_cart [] (emit ItemsUnavailable c)))"
  by (auto simp: checkout_try_def Let_def)

lemma user_message_99_short:
  assumes "length (find_in menu (currentOrder (session c))) < length (currentOrder (session c))"
  shows "user_message e menu ''99'' c =
           c\<lparr>session := (session c)\<lparr>currentOrder := []\<rparr>,
             out := out c @ [BotMessage ItemsUnavailable, BotMessage Options]\<rparr>"
  by (simp add: user_message_99 checkout_def checkout_try_short [OF assms]
      sendOptions_def set_cart_def emit_def)

text \<open>
  Claim C7. Catalog ids are unique. When the cart holds an id that the catalog no longer
  has, checkout sends the items-unavailable message and the options, empties the cart,
  leaves the order collection as it was, and sends nothing else: no call of the gateway's
  initialize.
\<close>

theorem checkout_vanished_item:
  assumes "distinct (map m_id menu)"
    and "i \<in> set (currentOrder (session c))"
    and "i \<notin> set (map m_id menu)"
  shows "session (user_message e menu ''99'' c) = (session c)\<lparr>currentOrder := []\<rparr>
       \<and> orders (user_message e menu ''99'' c) = orders c
       \<and> out (user_message e menu ''99'' c) = out c @ [BotMessage ItemsUnavailable, BotMessage Options]"
  by (simp add: user_message_99_short [OF find_in_short_missing [OF assms]])

text \<open>
  Claim C10. Catalog ids are unique. When the cart holds the same id twice, the catalog
  query, which returns each matching document once, yields fewer documents than the cart
  has entries, whether or not every id exists: checkout sends the items-unavailable message
  and the options, empties the cart and creates no order.
\<close>

theorem checkout_duplicate_items:
  assumes "distinct (map m_id menu)"
    and "\<not> distinct (currentOrder (session c))"
  shows "length (find_in menu (currentOrder (session c))) < length (currentOrder (session c))
       \<and> session (user_message e menu ''99'' c) = (session c)\<lparr>currentOrder := []\<rparr>
       \<and> orders (user_message e menu ''99'' c) = orders c
       \<and> out (user_message e menu ''99'' c) = out c @ [BotMessage ItemsUnavailable, BotMessage Options]"
  using find_in_short_duplicate [OF assms]
  by (simp add: user_message_99_short [OF find_in_short_duplicate [OF assms]])

text \<open>
  Claim C9. An input that, trimmed, does not match the pattern gets the invalid-input
  message and the options; the session (cart and selection flag) and the order collection
  stay as they were.
\<close>

theorem invalid_input_rejected:
  assumes "\<not> valid_input (trim input)"
  shows "session (user_message e menu input c) = session c
       \<and> orders (user_message e menu input c) = orders c
       \<and> out (user_message e menu input c) = out c @ [BotMessage InvalidInput, BotMessage Options]"
  using assms by (simp add: user_message_def sendOptions_def emit_def)

lemma new_order_items:
  "map i_price (o_items (new_order e sid items)) = map m_price items"
  "map menuItemId (o_items (new_order e sid items)) = map m_id items"
  by (simp_all add: new_order_def snapshot_def o_def)

lemma checkout_try_valid_cart:
  assumes "currentOrder (session c) \<noteq> []"
    and "length (find_in menu (currentOrder (session c))) = length (currentOrder (session c))"
    and "order_valid (new_order e (sessionId (session c)) (find_in menu (currentOrder (session c))))"
    and "\<not> saveFails e"
  shows "checkout_try e menu c =
           checkout_pay e (new_order e (sessionId (session c)) (find_in menu (currentOrder (session c))))
             (set_cart [] (c\<lparr>orders := orders c @
                [new_order e (sessionId (session c)) (find_in menu (currentOrder (session c)))]\<rparr>))"
  using assms by (simp add: checkout_try_def Let_def)

text \<open>
  Claim C8. Catalog ids are unique, the cart is not empty, lists each id once and only ids
  of the catalog, the new order passes the validators, the save succeeds, the key is set
  and the generated ObjectId is new. Then checkout creates a pending order \<open>a\<close> whose
  total is the sum of the prices in its item snapshot, whose snapshot holds exactly the
  ids of the cart, each at its catalog price, so the total is the sum of the catalog prices
  of the selected items; the order is appended to the collection; the gateway's initialize
  is called with amount \<open>total * 100\<close> and reference \<open>order_\<close> followed by the order's
  id; and when the gateway answers with a non-empty authorization URL, the reference is
  stored on the order (which refreshes its \<open>updatedAt\<close>) and a redirect to that URL is
  sent; otherwise the order stays in the collection as it was created.
\<close>

theorem checkout_creates_order:
  assumes menu: "distinct (map m_id menu)"
    and nonempty: "currentOrder (session c) \<noteq> []"
    and cart: "distinct (currentOrder (session c))"
    and exist: "set (currentOrder (session c)) \<subseteq> set (map m_id menu)"
    and valid: "order_valid (new_order e (sessionId (session c))
                  (find_in menu (currentOrder (session c))))"
    and saved: "\<not> saveFails e"
    and key: "keyPresent e"
    and fresh: "newOrderId e \<notin> set (map o_id (orders c))"
  shows "let a = new_order e (sessionId (session c)) (find_in menu (currentOrder (session c)));
             reference = ''order_'' @ newOrderId e;
             c' = user_message e menu ''99'' c
         in o_status a = Pending
          \<and> o_total a = sum_list (map i_price (o_items a))
          \<and> mset (map menuItemId (o_items a)) = mset (currentOrder (session c))
          \<and> map i_price (o_items a) = map (price_of menu) (map menuItemId (o_items a))
          \<and> o_total a = sum_list (map (price_of menu) (currentOrder (session c)))
          \<and> orders c' = orders c @
                [if (\<exists>url. gateway e = GwResponse (Some url) \<and> url \<noteq> [])
                 then a\<lparr>o_paymentReference := Some reference, o_updatedAt := later e\<rparr> else a]
          \<and> take (Suc (length (out c))) (out c')
               = out c @ [GatewayInitialize (o_total a * 100) reference]
          \<and> (\<forall>url. gateway e = GwResponse (Some url) \<and> url \<noteq> [] \<longrightarrow>
                orders c' = orders c @
                  [a\<lparr>o_paymentReference := Some reference, o_updatedAt := later e\<rparr>]
              \<and> out c' = out c @ [GatewayInitialize (o_total a * 100) reference, Redirect url])"
proof -
  define items where "items = find_in menu (currentOrder (session c))"
  define a where "a = new_order e (sessionId (session c)) items"
  define c0 where "c0 = set_cart [] (c\<lparr>orders := orders c @ [a]\<rparr>)"
  define c' where "c' = user_message e menu ''99'' c"
  have len: "length items = length (currentOrder (session c))"
    unfolding items_def by (rule find_in_full [OF menu cart exist])
  have total: "100 \<le> o_total a"
    using valid by (simp add: order_valid_def a_def items_def)
  have new_id: "o_id a = newOrderId e"
    by (simp add: a_def new_order_def)
  have body: "checkout_try e menu c = checkout_pay e a c0"
    unfolding a_def c0_def items_def
    using nonempty len valid saved by (simp add: checkout_try_valid_cart items_def)
  have p1: "o_status a = Pending"
    by (simp add: a_def new_order_def)
  have p2: "o_total a = sum_list (map i_price (o_items a))"
    by (simp add: a_def new_order_def foldl_price snapshot_def o_def)
  have p3: "mset (map menuItemId (o_items a)) = mset (currentOrder (session c))"
    unfolding a_def new_order_items items_def by (rule mset_find_in [OF menu cart exist])
  have p4: "map i_price (o_items a) = map (price_of menu) (map menuItemId (o_items a))"
    unfolding a_def new_order_items items_def
    using menu by (simp add: find_in_def price_of_member)
  have p5: "o_total a = sum_list (map (price_of menu) (currentOrder (session c)))"
    using sum_prices_find_in [OF menu cart exist]
    by (simp add: a_def new_order_def foldl_price items_def)
  have store: "update_first (\<lambda>d. o_id d = o_id a) f (orders c @ [a]) = orders c @ [f a]" for f
    using fresh by (intro update_first_append_fresh) (force simp: new_id)+
  have noref: "o_paymentReference a = None"
    by (simp add: a_def new_order_def)
  have save: "save_reference t a (orders c @ [a])
                = orders c @ [a\<lparr>o_paymentReference := Some (''order_'' @ newOrderId e),
                                o_updatedAt := t\<rparr>]" for t
    using store [of "\<lambda>d. d\<lparr>o_paymentReference := Some (payment_reference a), o_updatedAt := t\<rparr>"]
    by (simp add: save_reference_def noref payment_reference_def new_id)
  have p8: "orders c' = orders c @ [a\<lparr>o_paymentReference := Some (''order_'' @ newOrderId e),
                                      o_updatedAt := later e\<rparr>]
          \<and> out c' = out c @ [GatewayInitialize (o_total a * 100) (''order_'' @ newOrderId e),
                                Redirect url]"
    if "gateway e = GwResponse (Some url) \<and> url \<noteq> []" for url
    unfolding c'_def user_message_99_try body
    using total key that
    by (simp add: checkout_pay_def Let_def c0_def set_cart_def save payment_reference_def new_id)
  have p6: "orders c' = orders c @
              [if (\<exists>url. gateway e = GwResponse (Some url) \<and> url \<noteq> [])
               then a\<lparr>o_paymentReference := Some (''order_'' @ newOrderId e), o_updatedAt := later e\<rparr>
               else a]"
  proof (cases "\<exists>url. gateway e = GwResponse (Some url) \<and> url \<noteq> []")
    case True
    then show ?thesis
      using p8 by auto
  next
    case False
    then have "orders c' = orders c @ [a]"
      unfolding c'_def user_message_99_try body
      using total key
      by (auto simp: checkout_pay_def Let_def c0_def set_cart_def sendOptions_def emit_def
          split: gateway_reply.splits option.splits)
    with False show ?thesis by auto
  qed
  have p7: "take (Suc (length (out c))) (out c')
              = out c @ [GatewayInitialize (o_total a * 100) (''order_'' @ newOrderId e)]"
    unfolding c'_def user_message_99_try body
    using total key
    by (auto simp: checkout_pay_def Let_def c0_def set_cart_def sendOptions_def emit_def
        payment_reference_def new_id split: gateway_reply.splits option.splits)
  from p1 p2 p3 p4 p5 p6 p7 p8 show ?thesis
    unfolding Let_def a_def [symmetric] items_def [symmetric] c'_def [symmetric]
    by blast
qed

lemma seed_menu_distinct: "distinct (map m_id seed_menu)"
  by (simp add: seed_menu_def)

text \<open>
  The input \<open>1, 3\<close> (a space inside) does not match the pattern.
\<close>

theorem invalid_input_rejected_witness:
  "\<not> valid_input (trim ''1, 3'')
   \<and> session (user_message (env_ok ''a2'') seed_menu ''1, 3'' (demo_ctx [''m2''] [demo_order Pending]))
       = session (demo_ctx [''m2''] [demo_order Pending])
   \<and> orders (user_message (env_ok ''a2'') seed_menu ''1, 3'' (demo_ctx [''m2''] [demo_order Pending]))
       = orders (demo_ctx [''m2''] [demo_order Pending])
   \<and> out (user_message (env_ok ''a2'') seed_menu ''1, 3'' (demo_ctx [''m2''] [demo_order Pending]))
       = out (demo_ctx [''m2''] [demo_order Pending]) @ [BotMessage InvalidInput, BotMessage Options]"
proof -
  have h: "\<not> valid_input (trim ''1, 3'')"
    by (simp add: trim_def is_space_def valid_input_def input_pattern_def Plus_def is_digit_def)
  from invalid_input_rejected [OF h] h show ?thesis
    by blast
qed

text \<open>
  A cart with an id that is not in the seeded catalog.
\<close>

theorem checkout_vanished_item_witness:
  "distinct (map m_id seed_menu)
   \<and> ''gone'' \<in> set (currentOrder (session (demo_ctx [''m2'', ''gone''] [])))
   \<and> ''gone'' \<notin> set (map m_id seed_menu)
   \<and> session (user_message (env_ok ''a1'') seed_menu ''99'' (demo_ctx [''m2'', ''gone''] []))
       = (session (demo_ctx [''m2'', ''gone''] []))\<lparr>currentOrder := []\<rparr>
   \<and> orders (user_message (env_ok ''a1'') seed_menu ''99'' (demo_ctx [''m2'', ''gone''] []))
       = orders (demo_ctx [''m2'', ''gone''] [])
   \<and> out (user_message (env_ok ''a1'') seed_menu ''99'' (demo_ctx [''m2'', ''gone''] []))
       = out (demo_ctx [''m2'', ''gone''] []) @ [BotMessage ItemsUnavailable, BotMessage Options]"
proof -
  have h1: "''gone'' \<in> set (currentOrder (session (demo_ctx [''m2'', ''gone''] [])))"
    by (simp add: demo_ctx_def)
  have h2: "''gone'' \<notin> set (map m_id seed_menu)"
    by (simp add: seed_menu_def)
  from checkout_vanished_item [OF seed_menu_distinct h1 h2] seed_menu_distinct h1 h2
  show ?thesis by blast
qed

text \<open>
  The selection \<open>2,2\<close> after browsing puts the second item's id into the cart twice;
  the item exists, and checkout still aborts.
\<close>

theorem checkout_duplicate_items_witness:
  "currentOrder (session (user_message (env_ok ''a1'') seed_menu ''2,2''
       (user_message (env_ok ''a1'') seed_menu ''1'' (demo_ctx [] [])))) = [''m2'', ''m2'']
   \<and> distinct (map m_id seed_menu)
   \<and> set [''m2'', ''m2''] \<subseteq> set (map m_id seed_menu)
   \<and> \<not> distinct [''m2'', ''m2'']
   \<and> session (user_message (env_ok ''a1'') seed_menu ''99'' (demo_ctx [''m2'', ''m2''] []))
       = (session (demo_ctx [''m2'', ''m2''] []))\<lparr>currentOrder := []\<rparr>
   \<and> orders (user_message (env_ok ''a1'') seed_menu ''99'' (demo_ctx [''m2'', ''m2''] [])) = []
   \<and> out (user_message (env_ok ''a1'') seed_menu ''99'' (demo_ctx [''m2'', ''m2''] []))
       = [BotMessage ItemsUnavailable, BotMessage Options]"
proof -
  have sel: "currentOrder (session (user_message (env_ok ''a1'') seed_menu ''2,2''
       (user_message (env_ok ''a1'') seed_menu ''1'' (demo_ctx [] [])))) = [''m2'', ''m2'']"
    by code_simp
  have h: "\<not> distinct (currentOrder (session (demo_ctx [''m2'', ''m2''] [])))"
    by (simp add: demo_ctx_def)
  have sub: "set [''m2'', ''m2''] \<subseteq> set (map m_id seed_menu)"
    by (simp add: seed_menu_def)
  from checkout_duplicate_items [OF seed_menu_distinct h, of "env_ok ''a1''"]
  have "session (user_message (env_ok ''a1'') seed_menu ''99'' (demo_ctx [''m2'', ''m2''] []))
          = (session (demo_ctx [''m2'', ''m2''] []))\<lparr>currentOrder := []\<rparr>
      \<and> orders (user_message (env_ok ''a1'') seed_menu ''99'' (demo_ctx [''m2'', ''m2''] [])) = []
      \<and> out (user_message (env_ok ''a1'') seed_menu ''99'' (demo_ctx [''m2'', ''m2''] []))
          = [BotMessage ItemsUnavailable, BotMessage Options]"
    by (simp add: demo_ctx_def)
  with sel seed_menu_distinct sub show ?thesis
    by simp
qed

text \<open>
  Claim C6 on the code: the compensating delete never runs. With a cart that holds item 2
  and a gateway that fails, the \<open>catch\<close> block sends its message and the options and
  then raises the ReferenceError; the outer \<open>catch\<close> sends the generic error, and the
  order created in this turn stays in the collection, pending. When the creation itself
  fails, the block raises the same error instead of running as a no-op.
\<close>

theorem compensating_delete_never_runs:
  "checkout_try ((env_ok ''a2'')\<lparr>gateway := GwFailure None\<rparr>) seed_menu (demo_ctx [''m2''] [])
     = Inl (GatewayError None,
            \<lparr>session = demo_session,
             orders = [new_order (env_ok ''a2'') demo_sid [seed_menu ! 1]],
             out = [GatewayInitialize 200000 ''order_a2'']\<rparr>)
   \<and> user_message ((env_ok ''a2'')\<lparr>gateway := GwFailure None\<rparr>) seed_menu ''99'' (demo_ctx [''m2''] [])
     = \<lparr>session = demo_session,
        orders = [new_order (env_ok ''a2'') demo_sid [seed_menu ! 1]],
        out = [GatewayInitialize 200000 ''order_a2'', BotMessage PaymentFailed, BotMessage Options,
               BotMessage GenericError, BotMessage Options]\<rparr>
   \<and> o_status (new_order (env_ok ''a2'') demo_sid [seed_menu ! 1]) = Pending
   \<and> checkout ((env_ok ''a2'')\<lparr>saveFails := True\<rparr>) seed_menu (demo_ctx [''m2''] [demo_order Pending])
     = Inl (ReferenceError,
            \<lparr>session = demo_session\<lparr>currentOrder := [''m2'']\<rparr>, orders = [demo_order Pending],
             out = [BotMessage PaymentFailed, BotMessage Options]\<rparr>)"
  by code_simp

text \<open>
  Items 1 and 3 of the seeded catalog: the total is 1500 + 1200, the amount 270000.
\<close>

theorem checkout_creates_order_witness:
  "distinct (map m_id seed_menu)
   \<and> currentOrder (session (demo_ctx [''m1'', ''m3''] [demo_order Paid])) = [''m1'', ''m3'']
   \<and> set [''m1'', ''m3''] \<subseteq> set (map m_id seed_menu)
   \<and> order_valid (new_order (env_ok ''a2'') demo_sid (find_in seed_menu [''m1'', ''m3'']))
   \<and> \<not> saveFails (env_ok ''a2'') \<and> keyPresent (env_ok ''a2'')
   \<and> newOrderId (env_ok ''a2'') \<notin> set (map o_id [demo_order Paid])
   \<and> gateway (env_ok ''a2'') = GwResponse (Some ''https://checkout.paystack.com/x'')
   \<and> o_total (new_order (env_ok ''a2'') demo_sid (find_in seed_menu [''m1'', ''m3''])) = 2700
   \<and> orders (user_message (env_ok ''a2'') seed_menu ''99'' (demo_ctx [''m1'', ''m3''] [demo_order Paid]))
       = [demo_order Paid,
          (new_order (env_ok ''a2'') demo_sid (find_in seed_menu [''m1'', ''m3'']))
            \<lparr>o_paymentReference := Some ''order_a2'', o_updatedAt := 2000\<rparr>]
   \<and> out (user_message (env_ok ''a2'') seed_menu ''99'' (demo_ctx [''m1'', ''m3''] [demo_order Paid]))
       = [GatewayInitialize 270000 ''order_a2'', Redirect ''https://checkout.paystack.com/x'']"
proof -
  let ?c = "demo_ctx [''m1'', ''m3''] [demo_order Paid]"
  let ?e = "env_ok ''a2''"
  have cart: "currentOrder (session ?c) = [''m1'', ''m3'']"
    and sid: "sessionId (session ?c) = demo_sid"
    and os: "orders ?c = [demo_order Paid]"
    and ou: "out ?c = []"
    by (simp_all add: demo_ctx_def demo_session_def)
  have sub: "set [''m1'', ''m3''] \<subseteq> set (map m_id seed_menu)"
    by (simp add: seed_menu_def)
  have total: "o_total (new_order ?e demo_sid (find_in seed_menu [''m1'', ''m3''])) = 2700"
    by (simp add: new_order_def find_in_def seed_menu_def)
  have valid: "order_valid (new_order ?e demo_sid (find_in seed_menu [''m1'', ''m3'']))"
    unfolding order_valid_def total
    by (simp add: new_order_def demo_sid_def is_hex_or_hyphen_def)
  have env: "\<not> saveFails ?e" "keyPresent ?e" "newOrderId ?e = ''a2''"
    "gateway ?e = GwResponse (Some ''https://checkout.paystack.com/x'')" "later ?e = 2000"
    by (simp_all add: env_ok_def)
  have fresh: "newOrderId ?e \<notin> set (map o_id [demo_order Paid])"
    by (simp add: env demo_order_def)
  have "orders (user_message ?e seed_menu ''99'' ?c)
          = [demo_order Paid,
             (new_order ?e demo_sid (find_in seed_menu [''m1'', ''m3'']))
               \<lparr>o_paymentReference := Some ''order_a2'', o_updatedAt := 2000\<rparr>]
      \<and> out (user_message ?e seed_menu ''99'' ?c)
          = [GatewayInitialize 270000 ''order_a2'', Redirect ''https://checkout.paystack.com/x'']"
    using checkout_creates_order [of seed_menu ?c ?e] seed_menu_distinct sub valid env fresh
    by (simp add: cart sid os ou Let_def total)
  with seed_menu_distinct cart sub valid env fresh total show ?thesis
    by simp
qed

section \<open>Facts about the payment callback\<close>





lemma find_None_update_first: "find P xs = None \<Longrightarrow> update_first P f xs = xs"
  by (induction xs) (simp_all split: if_splits)




lemma callback_success_missing:
  assumes "find (\<lambda>d. o_paymentReference d = Some reference) os = None"
  shows "payment_callback t os reference (VerifyStatus ''success'') =
           \<lparr>cb_orders = os, response = Some (''/receipt?reference='' @ reference),
            broadcasts = [], uncaught = True\<rparr>"
  using assms
  by (simp add: payment_callback_def findOneAndUpdate_paid_def res_redirect_def
      callback_catch_def find_None_update_first)



section \<open>Statuses along interleavings\<close>

lemma orders_unchanged [simp]:
  "orders (browse menu c) = orders c"
  "orders (history c) = orders c"
  "orders (review menu c) = orders c"
  "orders (select_items menu cleanedInput c) = orders c"
  by (simp_all add: browse_def history_def review_def select_items_def Let_def set_awaiting_def
      set_cart_def sendOptions_def emit_def split: option.splits)




















section \<open>The claims about the callback and about interleavings\<close>

text \<open>
  Claim C2 on the code: when verify answers with the status \<open>failed\<close>, the collection is
  unchanged and nothing is broadcast, but no response is sent at all: the handler has no
  branch for a status other than success, and the error redirect is sent by the \<open>catch\<close>
  block only.
\<close>

theorem callback_not_success_no_response:
  "payment_callback t os reference (VerifyStatus ''failed'') =
     \<lparr>cb_orders = os, response = None, broadcasts = [], uncaught = False\<rparr>"
  by (simp add: payment_callback_def)

text \<open>
  Claim C4 on the code: a callback verified as success whose reference no order carries.
  No order changes and nothing is broadcast, but the caller is redirected to the receipt
  page; reading \<open>order.sessionId\<close> of null then throws, and the error redirect of the
  \<open>catch\<close> block throws in turn, since the response was sent.
\<close>

theorem callback_unknown_reference_receipt:
  "payment_callback 5000 [demo_order Pending] ''order_zz'' (VerifyStatus ''success'') =
     \<lparr>cb_orders = [demo_order Pending], response = Some ''/receipt?reference=order_zz'',
      broadcasts = [], uncaught = True\<rparr>"
  by (simp add: payment_callback_def findOneAndUpdate_paid_def res_redirect_def
      callback_catch_def demo_order_def)








text \<open>
  Claim C1 on the code: browse, select item 2, check out (the gateway answers), browse,
  select item 3, check out again. Both orders are pending for the one session: checkout
  with a non-empty cart creates an order without looking for a pending one, and case "1"
  does not delete pending orders.
\<close>

theorem second_pending_order:
  "map o_id (pending_of (store (run (demo_world [])
      [UserMessage 0 (env_ok ''a1'') ''1'', UserMessage 0 (env_ok ''a1'') ''2'',
       UserMessage 0 (env_ok ''a1'') ''99'',
       UserMessage 0 (env_ok ''a2'') ''1'', UserMessage 0 (env_ok ''a2'') ''3'',
       UserMessage 0 (env_ok ''a2'') ''99''])) demo_sid) = [''a1'', ''a2'']"
  by code_simp

end
